theory Spec2Isabelle
  imports Complex_Main "HOL-Library.Multiset"
begin

section \<open>Periscope: the opportunity detection pipeline\<close>

text \<open>
  A shallow embedding of the strategy code of the repository: the two concrete strategies
  (\<^verbatim>\<open>SandwichStrategy\<close>, \<^verbatim>\<open>ArbitrageStrategy\<close>), their base class
  (\<^verbatim>\<open>BaseStrategy\<close>) and the \<^verbatim>\<open>StrategyManager\<close>.

  Conventions of the embedding.
  \<^item> A JavaScript number is a \<^typ>\<open>real\<close>; a time in milliseconds is an \<^typ>\<open>int\<close>.
    The non-finite numbers (\<^verbatim>\<open>Infinity\<close>, \<^verbatim>\<open>NaN\<close>) are not values of the
    embedding, so a quotient whose divisor is zero is outside of it; \<^verbatim>\<open>parseInt\<close>,
    the one place where the code tests a \<^verbatim>\<open>NaN\<close>, returns an option.
  \<^item> An object is passed and returned explicitly: a method takes the object and returns
    the object it leaves behind.
  \<^item> \<^verbatim>\<open>Math.random()\<close>, \<^verbatim>\<open>uuidv4()\<close> and \<^verbatim>\<open>Date.now()\<close> are
    arguments: every result they can give is some value of the argument. One call of
    \<^verbatim>\<open>analyze\<close> reads one clock value.
  \<^item> A thrown exception is the left summand of a result; a \<^verbatim>\<open>try/catch\<close> is a
    case distinction on it.
  \<^item> Logging is left out, except where evaluating the logged expression can throw.
    The two display strings of an opportunity (\<^verbatim>\<open>executionPlan\<close>,
    \<^verbatim>\<open>targetTxHash\<close>) are left out as well.
\<close>

subsection \<open>Untyped payloads\<close>

text \<open>
  \<^verbatim>\<open>packet.data\<close> and every transaction have the type \<^verbatim>\<open>any\<close>. A
  \<^verbatim>\<open>Buffer\<close> is the list of its bytes (each taken modulo 256); an object is the
  list of its own properties, in insertion order.
\<close>

datatype jsval =
    JUndefined
  | JNull
  | JBool bool
  | JNum real
  | JStr string
  | JBuf "nat list"
  | JArr "jsval list"
  | JObj "(string \<times> jsval) list"

datatype error = TypeError | RangeError

fun truthy :: "jsval \<Rightarrow> bool" where
  "truthy JUndefined = False"
| "truthy JNull = False"
| "truthy (JBool b) = b"
| "truthy (JNum x) = (x \<noteq> 0)"
| "truthy (JStr s) = (s \<noteq> [])"
| "truthy (JBuf bs) = True"
| "truthy (JArr xs) = True"
| "truthy (JObj kvs) = True"

text \<open>
  \<^verbatim>\<open>v.k\<close> for a value that is neither \<^verbatim>\<open>null\<close> nor \<^verbatim>\<open>undefined\<close> and a
  key \<open>k\<close> that no prototype defines (\<^verbatim>\<open>data\<close>, \<^verbatim>\<open>outMsgs\<close>, \<^verbatim>\<open>hash\<close>,
  \<^verbatim>\<open>transactions\<close>, \<^verbatim>\<open>messages\<close>, \<^verbatim>\<open>stdSmcAddress\<close>).
\<close>

fun getProp :: "jsval \<Rightarrow> string \<Rightarrow> jsval" where
  "getProp (JObj kvs) k = (case map_of kvs k of Some v \<Rightarrow> v | None \<Rightarrow> JUndefined)"
| "getProp v k = JUndefined"

definition isNullish :: "jsval \<Rightarrow> bool" where
  "isNullish v = (v = JUndefined \<or> v = JNull)"

subsection \<open>Strings\<close>

fun startsWith :: "string \<Rightarrow> string \<Rightarrow> bool" where
  "startsWith s [] = True"
| "startsWith [] (p # ps) = False"
| "startsWith (c # cs) (p # ps) = (c = p \<and> startsWith cs ps)"

text \<open>\<^verbatim>\<open>s.indexOf(p)\<close>: the first position at which \<open>p\<close> occurs, \<open>None\<close> for -1.\<close>

fun indexOf :: "string \<Rightarrow> string \<Rightarrow> nat option" where
  "indexOf [] p = (if p = [] then Some 0 else None)"
| "indexOf (c # cs) p =
     (if startsWith (c # cs) p then Some 0 else map_option Suc (indexOf cs p))"

definition strIncludes :: "string \<Rightarrow> string \<Rightarrow> bool" where
  "strIncludes s p = (indexOf s p \<noteq> None)"

text \<open>\<^verbatim>\<open>s.substring(a, b)\<close> for \<open>0 \<le> a \<le> b\<close>; both ends are clamped to the length.\<close>

definition substring :: "string \<Rightarrow> nat \<Rightarrow> nat \<Rightarrow> string" where
  "substring s a b = take (b - a) (drop a s)"

definition hexDigitValue :: "char \<Rightarrow> nat option" where
  "hexDigitValue c =
     map_of
       [(CHR ''0'', 0), (CHR ''1'', 1), (CHR ''2'', 2), (CHR ''3'', 3), (CHR ''4'', 4),
        (CHR ''5'', 5), (CHR ''6'', 6), (CHR ''7'', 7), (CHR ''8'', 8), (CHR ''9'', 9),
        (CHR ''a'', 10), (CHR ''b'', 11), (CHR ''c'', 12), (CHR ''d'', 13), (CHR ''e'', 14),
        (CHR ''f'', 15), (CHR ''A'', 10), (CHR ''B'', 11), (CHR ''C'', 12), (CHR ''D'', 13),
        (CHR ''E'', 14), (CHR ''F'', 15)] c"

definition isHexDigit :: "char \<Rightarrow> bool" where
  "isHexDigit c = (hexDigitValue c \<noteq> None)"

definition hexValue :: "string \<Rightarrow> nat" where
  "hexValue s = foldl (\<lambda>acc c. 16 * acc + (case hexDigitValue c of Some d \<Rightarrow> d | None \<Rightarrow> 0)) 0 s"

text \<open>Tab, line feed, vertical tab, form feed, carriage return, space, no-break space.\<close>

definition isWhiteSpace :: "char \<Rightarrow> bool" where
  "isWhiteSpace c =
     (c \<in> set [CHR 0x09, CHR 0x0A, CHR 0x0B, CHR 0x0C, CHR 0x0D, CHR 0x20, CHR 0xA0])"

text \<open>
  \<^verbatim>\<open>parseInt(s, 16)\<close>: leading white space, a sign and a \<^verbatim>\<open>0x\<close> are skipped,
  the longest run of hexadecimal digits is read, and no digit at all gives \<^verbatim>\<open>NaN\<close>
  (\<open>None\<close>).
\<close>

definition parseInt16 :: "string \<Rightarrow> int option" where
  "parseInt16 s =
     (let s0 = dropWhile isWhiteSpace s;
          negative = startsWith s0 ''-'';
          s1 = (if startsWith s0 ''-'' \<or> startsWith s0 ''+'' then drop 1 s0 else s0);
          s2 = (if startsWith s1 ''0x'' \<or> startsWith s1 ''0X'' then drop 2 s1 else s1);
          z = takeWhile isHexDigit s2
      in if z = [] then None
         else Some ((if negative then - 1 else 1) * int (hexValue z)))"

text \<open>\<^verbatim>\<open>buffer.toString('hex')\<close>: two lower-case digits for each byte.\<close>

definition hexDigit :: "nat \<Rightarrow> char" where
  "hexDigit n = ''0123456789abcdef'' ! n"

definition toHex :: "nat list \<Rightarrow> string" where
  "toHex bs = concat (map (\<lambda>b. [hexDigit ((b mod 256) div 16), hexDigit (b mod 16)]) bs)"

subsection \<open>Packets, configurations and opportunities\<close>

record MempoolPacket =
  packet_id :: string
  packet_timestamp :: int
  data :: jsval
  transactions :: "jsval list option"

record StrategyConfig =
  enabled :: bool
  minConfidence :: real
  minProfitEstimate :: real

record SandwichConfig = StrategyConfig +
  minTargetSwapSize :: real
  maxFrontRunGas :: real
  maxBackRunGas :: real
  targetPairs :: "string list"
  slippageTolerance :: real

record ArbitrageConfig = StrategyConfig +
  dexes :: "string list"
  minPriceDifferencePercent :: real
  maxSlippage :: real
  gasBuffer :: real

record SandwichOpportunityDetails =
  sw_tokenPair :: string
  targetSwapSize :: real
  estimatedPriceImpact :: real
  frontRunAmount :: real
  backRunAmount :: real
  estimatedFrontRunGas :: real
  estimatedBackRunGas :: real
  totalGasCost :: real

record ArbitrageOpportunityDetails =
  buyDex :: string
  sellDex :: string
  arb_tokenPair :: string
  priceDifferencePercent :: real
  buyAmount :: real
  sellAmount :: real
  estimatedProfit :: real
  estimatedGas :: real

datatype details =
    SandwichDetails SandwichOpportunityDetails
  | ArbitrageDetails ArbitrageOpportunityDetails
  | OtherDetails

record MEVOpportunity =
  opp_id :: string
  strategy :: string
  opp_timestamp :: int
  profitEstimate :: real
  confidence :: real
  opp_details :: details
  rawData :: "string \<times> int"

text \<open>The fields of \<^verbatim>\<open>BaseStrategy\<close>; \<open>'c\<close> is the configuration of the subclass.\<close>

record 'c BaseStrategy =
  name :: string
  config :: 'c
  opportunities :: "MEVOpportunity list"

text \<open>
  \<^verbatim>\<open>tx.hash?.toString('hex')\<close> throws when \<^verbatim>\<open>hash\<close> is a number (the radix
  is not one) or an object whose own \<^verbatim>\<open>toString\<close> is data; an array is joined,
  which converts each element that is not \<^verbatim>\<open>null\<close> or \<^verbatim>\<open>undefined\<close>.
\<close>

fun toStringThrows :: "jsval \<Rightarrow> bool" where
  "toStringThrows (JObj kvs) = (map_of kvs ''toString'' \<noteq> None)"
| "toStringThrows (JArr xs) = (\<exists>x \<in> set xs. toStringThrows x)"
| "toStringThrows v = False"

definition hashError :: "jsval \<Rightarrow> error option" where
  "hashError tx =
     (let h = getProp tx ''hash'' in
      case h of
        JNum x \<Rightarrow> Some RangeError
      | _ \<Rightarrow> if toStringThrows h then Some TypeError else None)"

text \<open>
  The sources of chance and time of one call of \<^verbatim>\<open>analyzePacket\<close>: the clock, the
  three draws and the identifier of the sandwich strategy, and the draw and the
  identifiers of the arbitrage strategy (by the position of the transaction, and of the
  other venue).
\<close>

record Env =
  now :: int
  rndSwapSize :: real
  rndBackRun :: real
  rndCapture :: real
  sandwichUuid :: string
  rndPrice :: "nat \<Rightarrow> real"
  arbitrageUuid :: "nat \<Rightarrow> nat \<Rightarrow> string"

subsection \<open>The sandwich strategy\<close>

type_synonym SandwichStrategy = "SandwichConfig BaseStrategy"

definition defaultSandwichConfig :: SandwichConfig where
  "defaultSandwichConfig =
     \<lparr> enabled = True, minConfidence = 0.8, minProfitEstimate = 0.05,
       minTargetSwapSize = 10, maxFrontRunGas = 0.03, maxBackRunGas = 0.03,
       targetPairs = [''TON/USDT'', ''TON/USDC'', ''JETTON/TON''],
       slippageTolerance = 1.0 \<rparr>"

definition newSandwichStrategy :: "SandwichConfig \<Rightarrow> SandwichStrategy" where
  "newSandwichStrategy fullConfig =
     \<lparr> name = ''sandwich'', config = fullConfig, opportunities = [] \<rparr>"

text \<open>
  The result of \<^verbatim>\<open>extractSwapDetails\<close>. The pair is \<^verbatim>\<open>undefined\<close> (\<open>None\<close>)
  when the fallback reads the first of an empty list of target pairs.
\<close>

record SwapDetails =
  tokenPair :: "string option"
  swapSize :: real

text \<open>
  The loop over \<^verbatim>\<open>possibleOffsets\<close>: the first offset at which sixteen digits fit
  and read as a value above zero and below \<open>10^18\<close>.
\<close>

fun scanOffsets :: "string \<Rightarrow> nat \<Rightarrow> nat list \<Rightarrow> int option" where
  "scanOffsets hex opCodeIndex [] = None"
| "scanOffsets hex opCodeIndex (offset # rest) =
     (if opCodeIndex + offset + 16 \<le> length hex then
        (case parseInt16 (substring hex (opCodeIndex + offset) (opCodeIndex + offset + 16)) of
           Some amountValue \<Rightarrow>
             if amountValue > 0 \<and> amountValue < 10 ^ 18 then Some amountValue
             else scanOffsets hex opCodeIndex rest
         | None \<Rightarrow> scanOffsets hex opCodeIndex rest)
      else scanOffsets hex opCodeIndex rest)"

definition swapFromOutMsgs :: "jsval \<Rightarrow> SwapDetails option" where
  "swapFromOutMsgs tx =
     (case getProp tx ''outMsgs'' of
        JArr (JBuf bs # rest) \<Rightarrow>
          (let outMsgHex = toHex bs in
           case indexOf outMsgHex ''01e18801'' of
             None \<Rightarrow> None
           | Some opCodeIndex \<Rightarrow>
               (case scanOffsets outMsgHex opCodeIndex [8, 16, 24, 32] of
                  Some amountValue \<Rightarrow>
                    Some \<lparr> tokenPair = Some ''TON/USDT'',
                           swapSize = real_of_int amountValue / 10 ^ 9 \<rparr>
                | None \<Rightarrow> None))
      | _ \<Rightarrow> None)"

text \<open>
  \<^verbatim>\<open>dataHex.match(/([0-9a-f]{8,16})/i)\<close>: at the first position where eight
  hexadecimal digits start, as many of them as there are, up to sixteen.
\<close>

fun hexMatch :: "string \<Rightarrow> string option" where
  "hexMatch [] = None"
| "hexMatch (c # cs) =
     (let run = takeWhile isHexDigit (c # cs) in
      if 8 \<le> length run then Some (take 16 run) else hexMatch cs)"

text \<open>
  The second attempt, on \<^verbatim>\<open>tx.data\<close>. A value that is neither a buffer nor a
  string has no \<^verbatim>\<open>substring\<close>: the call throws.
\<close>

definition swapFromData :: "jsval \<Rightarrow> error + SwapDetails option" where
  "swapFromData tx =
     (let d = getProp tx ''data'' in
      if \<not> truthy d then Inr None
      else
        (case (case d of JBuf bs \<Rightarrow> Some (toHex bs) | JStr s \<Rightarrow> Some s | _ \<Rightarrow> None) of
           None \<Rightarrow> Inl TypeError
         | Some dataHex \<Rightarrow>
             if strIncludes dataHex ''swap'' \<or> strIncludes dataHex ''exchange''
                \<or> strIncludes dataHex ''01e18801''
             then
               (case hexMatch dataHex of
                  None \<Rightarrow> Inr None
                | Some amountHex \<Rightarrow>
                    (case parseInt16 amountHex of
                       None \<Rightarrow> Inr None
                     | Some amountValue \<Rightarrow>
                         if amountValue > 0 \<and> amountValue < 10 ^ 18
                         then Inr (Some \<lparr> tokenPair = Some ''TON/USDT'',
                                          swapSize = real_of_int amountValue / 10 ^ 9 \<rparr>)
                         else Inr None))
             else Inr None))"

text \<open>
  \<^verbatim>\<open>extractSwapDetails\<close>, called on a truthy \<^verbatim>\<open>tx\<close>. \<open>r\<close> is the draw of the
  fallback; an exception is caught and gives \<^verbatim>\<open>null\<close>.
\<close>

definition extractSwapDetails :: "SandwichConfig \<Rightarrow> real \<Rightarrow> jsval \<Rightarrow> SwapDetails option" where
  "extractSwapDetails sandwichConfig r tx =
     (case swapFromOutMsgs tx of
        Some d \<Rightarrow> Some d
      | None \<Rightarrow>
          (case swapFromData tx of
             Inl e \<Rightarrow> None
           | Inr (Some d) \<Rightarrow> Some d
           | Inr None \<Rightarrow>
               Some \<lparr> tokenPair = (case targetPairs sandwichConfig of [] \<Rightarrow> None | p # ps \<Rightarrow> Some p),
                      swapSize = minTargetSwapSize sandwichConfig + r * 20 \<rparr>))"

text \<open>
  The estimates of the strategy. Parameters the methods take and never read
  (\<^verbatim>\<open>tokenPair\<close> of \<^verbatim>\<open>calculatePriceImpact\<close>, the two amounts of
  \<^verbatim>\<open>calculateProfitEstimate\<close>) are left out; a draw of \<^verbatim>\<open>Math.random()\<close> is the
  argument \<open>r\<close>.
\<close>

definition calculatePriceImpact :: "SandwichConfig \<Rightarrow> real \<Rightarrow> real" where
  "calculatePriceImpact sandwichConfig swapSize' =
     (let sizeAboveMin = swapSize' - minTargetSwapSize sandwichConfig;
          impact = 0.1 + (sizeAboveMin / 10) * 0.05
      in min impact 5)"

definition calculateOptimalFrontRunAmount :: "real \<Rightarrow> real \<Rightarrow> real" where
  "calculateOptimalFrontRunAmount targetSwapSize' priceImpact =
     targetSwapSize' * (0.15 + (priceImpact / 100))"

definition calculateOptimalBackRunAmount :: "real \<Rightarrow> real \<Rightarrow> real \<Rightarrow> real" where
  "calculateOptimalBackRunAmount r targetSwapSize' frontRunAmount' =
     frontRunAmount' + (targetSwapSize' * (0.05 + (r * 0.05)))"

definition calculateProfitEstimate :: "real \<Rightarrow> real \<Rightarrow> real \<Rightarrow> real \<Rightarrow> real" where
  "calculateProfitEstimate r targetSwapSize' priceImpact gasCost =
     (let captureRate = 0.6 + (r * 0.2);
          grossProfit = (targetSwapSize' * priceImpact / 100) * captureRate
      in grossProfit - gasCost)"

definition sandwich_calculateConfidence :: "SandwichConfig \<Rightarrow> real \<Rightarrow> real \<Rightarrow> real \<Rightarrow> real" where
  "sandwich_calculateConfidence sandwichConfig swapSize' priceImpact profitEstimate' =
     (let swapSizeFactor = min ((swapSize' / minTargetSwapSize sandwichConfig) * 0.05) 0.15;
          impactFactor = min (priceImpact * 0.02) 0.1;
          profitFactor = min ((profitEstimate' / minProfitEstimate sandwichConfig) * 0.02) 0.1
      in min (0.7 + swapSizeFactor + impactFactor + profitFactor) 0.98)"

text \<open>
  \<^verbatim>\<open>SandwichStrategy.analyze\<close>. Every exit of the \<^verbatim>\<open>try\<close> block returns the
  list built so far; the one expression of the block that can throw is the rendering of
  \<^verbatim>\<open>tx.hash\<close>, before the opportunity exists.
\<close>

definition SandwichStrategy_analyze ::
  "Env \<Rightarrow> MempoolPacket \<Rightarrow> SandwichStrategy \<Rightarrow> MEVOpportunity list \<times> SandwichStrategy" where
  "SandwichStrategy_analyze env packet this =
     (let sandwichConfig = config this; tx = data packet in
      if \<not> truthy tx then ([], this)
      else
        (case extractSwapDetails sandwichConfig (rndSwapSize env) tx of
           None \<Rightarrow> ([], this)
         | Some swapDetails \<Rightarrow>
             if \<not> (case tokenPair swapDetails of None \<Rightarrow> False
                    | Some p \<Rightarrow> p \<in> set (targetPairs sandwichConfig))
             then ([], this)
             else if swapSize swapDetails < minTargetSwapSize sandwichConfig then ([], this)
             else
               (let estimatedPriceImpact' = calculatePriceImpact sandwichConfig (swapSize swapDetails) in
                if estimatedPriceImpact' < 0.5 then ([], this)
                else
                  (let frontRunAmount' =
                         calculateOptimalFrontRunAmount (swapSize swapDetails) estimatedPriceImpact';
                       backRunAmount' =
                         calculateOptimalBackRunAmount (rndBackRun env) (swapSize swapDetails) frontRunAmount';
                       estimatedFrontRunGas' =
                         min (maxFrontRunGas sandwichConfig) (0.01 + (frontRunAmount' * 0.001));
                       estimatedBackRunGas' =
                         min (maxBackRunGas sandwichConfig) (0.01 + (backRunAmount' * 0.001));
                       totalGasCost' = estimatedFrontRunGas' + estimatedBackRunGas';
                       profitEstimate' =
                         calculateProfitEstimate (rndCapture env) (swapSize swapDetails)
                           estimatedPriceImpact' totalGasCost'
                   in
                   if profitEstimate' < minProfitEstimate sandwichConfig then ([], this)
                   else
                     (let confidence' =
                            sandwich_calculateConfidence sandwichConfig (swapSize swapDetails)
                              estimatedPriceImpact' profitEstimate'
                      in
                      if confidence' < minConfidence sandwichConfig then ([], this)
                      else if hashError tx \<noteq> None then ([], this)
                      else
                        (let opportunity =
                               \<lparr> opp_id = sandwichUuid env,
                                 strategy = name this,
                                 opp_timestamp = packet_timestamp packet,
                                 profitEstimate = profitEstimate',
                                 confidence = confidence',
                                 opp_details = SandwichDetails
                                   \<lparr> sw_tokenPair = (case tokenPair swapDetails of Some p \<Rightarrow> p | None \<Rightarrow> []),
                                     targetSwapSize = swapSize swapDetails,
                                     estimatedPriceImpact = estimatedPriceImpact',
                                     frontRunAmount = frontRunAmount',
                                     backRunAmount = backRunAmount',
                                     estimatedFrontRunGas = estimatedFrontRunGas',
                                     estimatedBackRunGas = estimatedBackRunGas',
                                     totalGasCost = totalGasCost' \<rparr>,
                                 rawData = (packet_id packet, packet_timestamp packet) \<rparr>
                         in ([opportunity],
                             this\<lparr> opportunities := opportunities this @ [opportunity] \<rparr>)))))))"


subsection \<open>The venue registry\<close>

record TokenConfig =
  address :: "string option"
  poolId :: "string option"
  tokenId :: "string option"
  decimals :: nat
  minAmount :: real
  maxAmount :: real
  swapOpCode :: "string option"

record DexConfig =
  dex_name :: string
  contractAddress :: string
  opCode :: string
  tokenConfigs :: "(string \<times> TokenConfig) list"

definition dexConfigs :: "(string \<times> DexConfig) list" where
  "dexConfigs =
     [(''DeDust'',
       \<lparr> dex_name = ''DeDust'',
         contractAddress = ''EQBfBWT7X2BHg9tXAxzhz2aKiNTU1tpt5NsiK0uSDW_YAJ67'',
         opCode = ''b5ee9c72'',
         tokenConfigs =
           [(''USDT'', \<lparr> address = Some ''0a519f99bb5b6d3d3c5c8d5e5f5a5b5c5d5e5f5a5b5c5d5e5f5a5b5c5d5e5f'',
                poolId = None, tokenId = None, decimals = 6, minAmount = 1, maxAmount = 1000000,
                swapOpCode = Some ''01e18801'' \<rparr>),
            (''USDC'', \<lparr> address = Some ''0b519f99bb5b6d3d3c5c8d5e5f5a5b5c5d5e5f5a5b5c5d5e5f5a5b5c5d5e5f'',
                poolId = None, tokenId = None, decimals = 6, minAmount = 1, maxAmount = 1000000,
                swapOpCode = Some ''01e18801'' \<rparr>),
            (''ETH'', \<lparr> address = Some ''0c519f99bb5b6d3d3c5c8d5e5f5a5b5c5d5e5f5a5b5c5d5e5f5a5b5c5d5e5f'',
                poolId = None, tokenId = None, decimals = 18, minAmount = 0.0001, maxAmount = 100,
                swapOpCode = Some ''01e18801'' \<rparr>)] \<rparr>),
      (''Ston.fi'',
       \<lparr> dex_name = ''Ston.fi'',
         contractAddress = ''fdc7cd1d8d0e710105e2b69bbd747eb3748cc4103bc0dd581e91ba4360929b73'',
         opCode = ''b5ee9c72'',
         tokenConfigs =
           [(''USDT'', \<lparr> address = None, poolId = Some ''0001'', tokenId = None, decimals = 6,
                minAmount = 1, maxAmount = 1000000, swapOpCode = None \<rparr>),
            (''USDC'', \<lparr> address = None, poolId = Some ''0002'', tokenId = None, decimals = 6,
                minAmount = 1, maxAmount = 1000000, swapOpCode = None \<rparr>),
            (''ETH'', \<lparr> address = None, poolId = Some ''0003'', tokenId = None, decimals = 18,
                minAmount = 0.0001, maxAmount = 100, swapOpCode = None \<rparr>)] \<rparr>),
      (''Megaton'',
       \<lparr> dex_name = ''Megaton'',
         contractAddress = ''0bfe2f05a7ccf04aa326cb3ae08c2bb7d9729ddec7fc04a5f9d01007d9c65f9f'',
         opCode = ''b5ee9c72'',
         tokenConfigs =
           [(''USDT'', \<lparr> address = None, poolId = None, tokenId = Some ''0101'', decimals = 6,
                minAmount = 1, maxAmount = 1000000, swapOpCode = None \<rparr>),
            (''USDC'', \<lparr> address = None, poolId = None, tokenId = Some ''0102'', decimals = 6,
                minAmount = 1, maxAmount = 1000000, swapOpCode = None \<rparr>),
            (''ETH'', \<lparr> address = None, poolId = None, tokenId = Some ''0103'', decimals = 18,
                minAmount = 0.0001, maxAmount = 100, swapOpCode = None \<rparr>)] \<rparr>)]"

text \<open>\<^verbatim>\<open>s || null\<close>: the empty string is absent as well.\<close>

definition orNull :: "string option \<Rightarrow> string option" where
  "orNull x = (case x of Some s \<Rightarrow> (if s = [] then None else Some s) | None \<Rightarrow> None)"

definition tokenConfigOf :: "string \<Rightarrow> string \<Rightarrow> TokenConfig option" where
  "tokenConfigOf dexName token =
     (case map_of dexConfigs dexName of
        None \<Rightarrow> None
      | Some c \<Rightarrow> map_of (tokenConfigs c) token)"

definition getDexContractAddress :: "string \<Rightarrow> string option" where
  "getDexContractAddress dexName = orNull (map_option contractAddress (map_of dexConfigs dexName))"

definition getDexOpCode :: "string \<Rightarrow> string option" where
  "getDexOpCode dexName = orNull (map_option opCode (map_of dexConfigs dexName))"

definition getTokenAddress :: "string \<Rightarrow> string \<Rightarrow> string option" where
  "getTokenAddress dexName token =
     orNull (case tokenConfigOf dexName token of None \<Rightarrow> None | Some t \<Rightarrow> address t)"

definition getTokenPoolId :: "string \<Rightarrow> string \<Rightarrow> string option" where
  "getTokenPoolId dexName token =
     orNull (case tokenConfigOf dexName token of None \<Rightarrow> None | Some t \<Rightarrow> poolId t)"

definition getTokenId :: "string \<Rightarrow> string \<Rightarrow> string option" where
  "getTokenId dexName token =
     orNull (case tokenConfigOf dexName token of None \<Rightarrow> None | Some t \<Rightarrow> tokenId t)"

definition getTokenSwapOpCode :: "string \<Rightarrow> string \<Rightarrow> string option" where
  "getTokenSwapOpCode dexName token =
     orNull (case tokenConfigOf dexName token of None \<Rightarrow> None | Some t \<Rightarrow> swapOpCode t)"

definition getTokenDecimals :: "string \<Rightarrow> string \<Rightarrow> nat" where
  "getTokenDecimals dexName token =
     (case tokenConfigOf dexName token of
        None \<Rightarrow> 18
      | Some t \<Rightarrow> if decimals t = 0 then 18 else decimals t)"

definition getSupportedDexes :: "string list" where
  "getSupportedDexes = map fst dexConfigs"

definition getSupportedTokens :: "string \<Rightarrow> string list" where
  "getSupportedTokens dexName =
     (case map_of dexConfigs dexName of None \<Rightarrow> [] | Some c \<Rightarrow> map fst (tokenConfigs c))"

subsection \<open>The price cache\<close>

record PriceEntry =
  price :: real
  timestamp :: int

text \<open>
  \<^verbatim>\<open>Record<string, Record<string, {price, timestamp}>>\<close>: the venues, and for each
  venue its pairs, both in insertion order (the order of \<^verbatim>\<open>Object.entries\<close> for keys
  that are not array indices; a pair name holds a slash).
\<close>

type_synonym PriceCache = "(string \<times> (string \<times> PriceEntry) list) list"

definition PRICE_CACHE_TTL :: int where
  "PRICE_CACHE_TTL = 60000"

definition MAX_CACHE_SIZE :: nat where
  "MAX_CACHE_SIZE = 1000"

text \<open>\<^verbatim>\<open>obj[k] = v\<close>: an existing key keeps its place, a new one goes last.\<close>

fun assign :: "(string \<times> 'v) list \<Rightarrow> string \<Rightarrow> 'v \<Rightarrow> (string \<times> 'v) list" where
  "assign [] k v = [(k, v)]"
| "assign ((k', v') # kvs) k v = (if k' = k then (k, v) # kvs else (k', v') # assign kvs k v)"

definition removeKeys :: "string list \<Rightarrow> (string \<times> 'v) list \<Rightarrow> (string \<times> 'v) list" where
  "removeKeys ks kvs = filter (\<lambda>kv. fst kv \<notin> set ks) kvs"

text \<open>
  The body of the loop of \<^verbatim>\<open>cleanupPriceCache\<close> for one venue: the entries older than
  the time to live go, then, if more than \<^verbatim>\<open>MAX_CACHE_SIZE\<close> are left, the oldest of
  them (the sort is stable).
\<close>

definition cleanupDex :: "int \<Rightarrow> (string \<times> PriceEntry) list \<Rightarrow> (string \<times> PriceEntry) list" where
  "cleanupDex now' pairs =
     (let entries = filter (\<lambda>kv. \<not> (now' - timestamp (snd kv) > PRICE_CACHE_TTL)) pairs in
      if length entries > MAX_CACHE_SIZE then
        removeKeys
          (map fst (take (length entries - MAX_CACHE_SIZE)
                      (sort_key (\<lambda>kv. timestamp (snd kv)) entries)))
          entries
      else entries)"

definition cleanupPriceCache :: "int \<Rightarrow> PriceCache \<Rightarrow> PriceCache" where
  "cleanupPriceCache now' priceCache = map (\<lambda>(dex, pairs). (dex, cleanupDex now' pairs)) priceCache"

text \<open>
  \<^verbatim>\<open>getPriceFromCache\<close>, read at the time \<open>now'\<close>: the price, or \<^verbatim>\<open>null\<close>; an
  expired entry is deleted by the read.
\<close>

definition getPriceFromCache ::
  "int \<Rightarrow> string \<Rightarrow> string \<Rightarrow> PriceCache \<Rightarrow> real option \<times> PriceCache" where
  "getPriceFromCache now' dex tokenPair' priceCache =
     (case map_of priceCache dex of
        None \<Rightarrow> (None, priceCache)
      | Some pairs \<Rightarrow>
          (case map_of pairs tokenPair' of
             None \<Rightarrow> (None, priceCache)
           | Some cacheEntry \<Rightarrow>
               if now' - timestamp cacheEntry > PRICE_CACHE_TTL
               then (None, assign priceCache dex (removeKeys [tokenPair'] pairs))
               else (Some (price cacheEntry), priceCache)))"

text \<open>
  \<^verbatim>\<open>updatePriceCache\<close>: \<open>writeTime\<close> is the clock value stored with the price,
  \<open>cleanupTime\<close> the one \<^verbatim>\<open>cleanupPriceCache\<close> reads right after.
\<close>

definition updatePriceCache ::
  "int \<Rightarrow> int \<Rightarrow> string \<Rightarrow> string \<Rightarrow> real \<Rightarrow> PriceCache \<Rightarrow> PriceCache" where
  "updatePriceCache writeTime cleanupTime dex tokenPair' price' priceCache =
     (let pairs = (case map_of priceCache dex of None \<Rightarrow> [] | Some ps \<Rightarrow> ps);
          written = assign priceCache dex
                      (assign pairs tokenPair' \<lparr> price = price', timestamp = writeTime \<rparr>)
      in cleanupPriceCache cleanupTime written)"








text \<open>
  Two invariants of the pairs of one venue, for a price \<open>p\<close> written for the pair \<open>k\<close>
  at the time \<open>T\<close>: the entry is the written one or gone (\<open>written\<close>); the entry is
  the written one and \<open>n\<close> more pairs fit under the maximal size (\<open>held\<close>).
\<close>

definition written :: "string \<Rightarrow> real \<Rightarrow> int \<Rightarrow> (string \<times> PriceEntry) list \<Rightarrow> bool" where
  "written k p T ps =
     (distinct (map fst ps)
      \<and> (map_of ps k = None \<or> map_of ps k = Some \<lparr> price = p, timestamp = T \<rparr>))"


subsection \<open>The arbitrage strategy\<close>

record ArbitrageStrategy = "ArbitrageConfig BaseStrategy" +
  priceCache :: PriceCache

record DexInfo =
  info_dex :: string
  info_tokenPair :: string
  info_price :: real

definition defaultArbitrageConfig :: ArbitrageConfig where
  "defaultArbitrageConfig =
     \<lparr> enabled = True, minConfidence = 0.7, minProfitEstimate = 0.01,
       dexes = getSupportedDexes, minPriceDifferencePercent = 0.5, maxSlippage = 0.5,
       gasBuffer = 0.005 \<rparr>"

definition newArbitrageStrategy :: "ArbitrageConfig \<Rightarrow> ArbitrageStrategy" where
  "newArbitrageStrategy fullConfig =
     \<lparr> name = ''arbitrage'', config = fullConfig, opportunities = [],
       priceCache = foldl (\<lambda>cache dex. assign cache dex []) [] (dexes fullConfig) \<rparr>"

text \<open>
  \<^verbatim>\<open>extractTransactions\<close>: the list the packet carries, else
  \<^verbatim>\<open>data.transactions\<close>, else \<^verbatim>\<open>data.messages\<close>, else \<^verbatim>\<open>data\<close> itself when
  it is an array, else nothing.
\<close>

definition extractTransactions :: "MempoolPacket \<Rightarrow> jsval list" where
  "extractTransactions packet =
     (case transactions packet of
        Some txs \<Rightarrow> txs
      | None \<Rightarrow>
          (let d = data packet in
           if truthy d then
             (case getProp d ''transactions'' of
                JArr txs \<Rightarrow> txs
              | _ \<Rightarrow>
                  (case getProp d ''messages'' of
                     JArr ms \<Rightarrow> ms
                   | _ \<Rightarrow> (case d of JArr xs \<Rightarrow> xs | _ \<Rightarrow> [])))
           else []))"

text \<open>
  \<^verbatim>\<open>v.includes(p)\<close> on a payload value: a substring test on a string, a membership
  test on an array, an exception on anything else.
\<close>

fun valIncludes :: "jsval \<Rightarrow> string \<Rightarrow> error + bool" where
  "valIncludes (JStr s) p = Inr (strIncludes s p)"
| "valIncludes (JArr xs) p = Inr (JStr p \<in> set xs)"
| "valIncludes v p = Inl TypeError"

definition hexOrSelf :: "jsval \<Rightarrow> jsval" where
  "hexOrSelf v = (case v of JBuf bs \<Rightarrow> JStr (toHex bs) | _ \<Rightarrow> v)"

text \<open>The loop over the supported venues: the first one whose pattern the value includes.\<close>

fun findDex :: "jsval \<Rightarrow> (string \<times> string option) list \<Rightarrow> error + string option" where
  "findDex v [] = Inr None"
| "findDex v ((dexName, None) # rest) = findDex v rest"
| "findDex v ((dexName, Some pat) # rest) =
     (case valIncludes v pat of
        Inl e \<Rightarrow> Inl e
      | Inr b \<Rightarrow> if b then Inr (Some dexName) else findDex v rest)"

text \<open>
  The three scans that \<^verbatim>\<open>isDexTransaction\<close> and \<^verbatim>\<open>extractDexInfo\<close> both make, in
  the same order: the contract address in \<^verbatim>\<open>stdSmcAddress\<close>, the operation code in
  the first outbound message, the operation code in \<^verbatim>\<open>data\<close>.
\<close>

definition identifyDex :: "jsval \<Rightarrow> error + string option" where
  "identifyDex tx =
     (let addresses = map (\<lambda>d. (d, getDexContractAddress d)) getSupportedDexes;
          opCodes = map (\<lambda>d. (d, getDexOpCode d)) getSupportedDexes;
          a = getProp tx ''stdSmcAddress''
      in
      case (if truthy a then findDex (hexOrSelf a) addresses else Inr None) of
        Inl e \<Rightarrow> Inl e
      | Inr (Some dex) \<Rightarrow> Inr (Some dex)
      | Inr None \<Rightarrow>
          (case (case getProp tx ''outMsgs'' of
                   JArr (JBuf bs # rest) \<Rightarrow> findDex (JStr (toHex bs)) opCodes
                 | _ \<Rightarrow> Inr None) of
             Inl e \<Rightarrow> Inl e
           | Inr (Some dex) \<Rightarrow> Inr (Some dex)
           | Inr None \<Rightarrow>
               (let d = getProp tx ''data'' in
                if truthy d then findDex (hexOrSelf d) opCodes else Inr None)))"

text \<open>
  \<^verbatim>\<open>isDexTransaction\<close>. A match is logged with the rendered hash, and so is a caught
  exception: when the rendering throws, the handler throws as well.
\<close>

definition isDexTransaction :: "jsval \<Rightarrow> error + bool" where
  "isDexTransaction tx =
     (if isNullish tx then Inl TypeError
      else
        (case identifyDex tx of
           Inl e \<Rightarrow> (case hashError tx of Some e' \<Rightarrow> Inl e' | None \<Rightarrow> Inr False)
         | Inr (Some dex) \<Rightarrow> (case hashError tx of Some e' \<Rightarrow> Inl e' | None \<Rightarrow> Inr True)
         | Inr None \<Rightarrow> Inr False))"

text \<open>
  The first token of the venue whose swap code the outbound message holds, with the price
  read behind the code, if any.
\<close>

fun tokenFromOutMsg :: "string \<Rightarrow> string \<Rightarrow> string list \<Rightarrow> (string \<times> real option) option" where
  "tokenFromOutMsg dex outMsgHex [] = None"
| "tokenFromOutMsg dex outMsgHex (token # rest) =
     (case getTokenSwapOpCode dex token of
        None \<Rightarrow> tokenFromOutMsg dex outMsgHex rest
      | Some swapOp \<Rightarrow>
          (case indexOf outMsgHex swapOp of
             None \<Rightarrow> tokenFromOutMsg dex outMsgHex rest
           | Some opCodeIndex \<Rightarrow>
               Some (token,
                 map_option (\<lambda>priceValue. real_of_int priceValue / 10 ^ getTokenDecimals dex token)
                   (scanOffsets outMsgHex opCodeIndex [24, 32, 40, 48, 56, 64]))))"

text \<open>
  One test of the scan of \<^verbatim>\<open>data\<close>: when the value includes the identifier, the
  sixteen digits \<open>a\<close> places behind it are read as a price in nano units (\<open>None\<close> inside
  for \<^verbatim>\<open>NaN\<close>). An array has \<^verbatim>\<open>includes\<close> but no \<^verbatim>\<open>substring\<close>.
\<close>

fun probe :: "jsval \<Rightarrow> string option \<Rightarrow> nat \<Rightarrow> nat \<Rightarrow> error + real option option" where
  "probe v None a b = Inr None"
| "probe (JStr s) (Some ident) a b =
     (case indexOf s ident of
        None \<Rightarrow> Inr None
      | Some i \<Rightarrow>
          Inr (Some (map_option (\<lambda>priceNano. real_of_int priceNano / 10 ^ 9)
                       (parseInt16 (substring s (i + a) (i + b))))))"
| "probe (JArr xs) (Some ident) a b = (if JStr ident \<in> set xs then Inl TypeError else Inr None)"
| "probe v (Some ident) a b = Inl TypeError"

fun tokenFromData :: "string \<Rightarrow> jsval \<Rightarrow> string list \<Rightarrow> error + (string \<times> real option) option" where
  "tokenFromData dex dataHex [] = Inr None"
| "tokenFromData dex dataHex (token # rest) =
     (case probe dataHex (getTokenAddress dex token) 80 96 of
        Inl e \<Rightarrow> Inl e
      | Inr (Some p) \<Rightarrow> Inr (Some (token, p))
      | Inr None \<Rightarrow>
          (case probe dataHex (getTokenPoolId dex token) 24 40 of
             Inl e \<Rightarrow> Inl e
           | Inr (Some p) \<Rightarrow> Inr (Some (token, p))
           | Inr None \<Rightarrow>
               (case probe dataHex (getTokenId dex token) 24 40 of
                  Inl e \<Rightarrow> Inl e
                | Inr (Some p) \<Rightarrow> Inr (Some (token, p))
                | Inr None \<Rightarrow> tokenFromData dex dataHex rest)))"

text \<open>\<^verbatim>\<open>!price\<close> is false for a number other than zero and \<^verbatim>\<open>NaN\<close>.\<close>

definition truthyPrice :: "real option \<Rightarrow> bool" where
  "truthyPrice p = (case p of None \<Rightarrow> False | Some x \<Rightarrow> x \<noteq> 0)"

definition simulatedPrice :: "real \<Rightarrow> string \<Rightarrow> real" where
  "simulatedPrice r token =
     (if token = ''USDT'' \<or> token = ''USDC'' then 0.5 + r * 0.1
      else if token = ''ETH'' then 0.0003 + r * 0.0001
      else 1 + r * 0.2)"

text \<open>The \<^verbatim>\<open>try\<close> block of \<^verbatim>\<open>extractDexInfo\<close>, without its log lines.\<close>

definition extractDexInfoBody :: "real \<Rightarrow> jsval \<Rightarrow> error + DexInfo option" where
  "extractDexInfoBody r tx =
     (case identifyDex tx of
        Inl e \<Rightarrow> Inl e
      | Inr None \<Rightarrow> Inr None
      | Inr (Some dex) \<Rightarrow>
          (let fromOutMsg =
                 (case getProp tx ''outMsgs'' of
                    JArr (JBuf bs # rest) \<Rightarrow> tokenFromOutMsg dex (toHex bs) (getSupportedTokens dex)
                  | _ \<Rightarrow> None);
               token1 = map_option fst fromOutMsg;
               price1 = (case fromOutMsg of Some (t, p) \<Rightarrow> p | None \<Rightarrow> None);
               d = getProp tx ''data''
           in
           case (if (token1 = None \<or> \<not> truthyPrice price1) \<and> truthy d
                 then tokenFromData dex (hexOrSelf d) (getSupportedTokens dex)
                 else Inr None) of
             Inl e \<Rightarrow> Inl e
           | Inr fromData \<Rightarrow>
               (let token2 = (case fromData of Some (t, p) \<Rightarrow> Some t | None \<Rightarrow> token1);
                    price2 = (case fromData of Some (t, p) \<Rightarrow> p | None \<Rightarrow> price1);
                    token3 = (case token2 of
                                Some t \<Rightarrow> Some t
                              | None \<Rightarrow> (case getSupportedTokens dex of [] \<Rightarrow> None | t # ts \<Rightarrow> Some t));
                    price3 = (case token3 of
                                Some t \<Rightarrow>
                                  if truthyPrice price2 then price2
                                  else Some (simulatedPrice r (takeWhile (\<lambda>c. c \<noteq> CHR ''/'') t))
                              | None \<Rightarrow> price2)
                in
                case (token3, price3) of
                  (Some t, Some x) \<Rightarrow>
                    if x \<noteq> 0
                    then Inr (Some \<lparr> info_dex = dex, info_tokenPair = ''TON/'' @ t, info_price = x \<rparr>)
                    else Inr None
                | _ \<Rightarrow> Inr None)))"

text \<open>
  \<^verbatim>\<open>extractDexInfo\<close>. Every way through the method logs the rendered hash, and so does
  its handler: a hash whose rendering throws makes the method throw, any other exception
  is caught and gives \<^verbatim>\<open>null\<close>.
\<close>

definition extractDexInfo :: "real \<Rightarrow> jsval \<Rightarrow> error + DexInfo option" where
  "extractDexInfo r tx =
     (if isNullish tx then Inl TypeError
      else
        (case hashError tx of
           Some e \<Rightarrow> Inl e
         | None \<Rightarrow> (case extractDexInfoBody r tx of Inl e \<Rightarrow> Inr None | Inr info \<Rightarrow> Inr info)))"

definition calculateOptimalTradeSize :: "real \<Rightarrow> real \<Rightarrow> real \<Rightarrow> real" where
  "calculateOptimalTradeSize buyPrice sellPrice maxSlippage' =
     (let priceDifferencePercent' = (sellPrice - buyPrice) / buyPrice * 100;
          baseSize = 10;
          sizeFactor = min (priceDifferencePercent' / 1.0) 5.0
      in baseSize * (1 + sizeFactor))"

definition estimateGasCost :: "string \<Rightarrow> string \<Rightarrow> real" where
  "estimateGasCost buyDex' sellDex' =
     (let baseGasCost = 0.01;
          additionalCost1 = (if buyDex' = ''Megaton'' \<or> sellDex' = ''Megaton'' then 0.002 else 0);
          additionalCost2 = (if buyDex' \<noteq> sellDex' then additionalCost1 + 0.003 else additionalCost1)
      in baseGasCost + additionalCost2)"

definition arbitrage_calculateConfidence :: "real \<Rightarrow> real \<Rightarrow> real \<Rightarrow> real" where
  "arbitrage_calculateConfidence priceDifferencePercent' estimatedProfit' minProfitEstimate' =
     (let priceDifferenceScore = min (priceDifferencePercent' / 5) 1;
          profitScore = min (estimatedProfit' / (minProfitEstimate' * 10)) 1
      in (priceDifferenceScore * 0.7) + (profitScore * 0.3))"

text \<open>
  The expression of \<^verbatim>\<open>analyze\<close> that compares the observed price with a cached one.
\<close>

definition priceDifference :: "real \<Rightarrow> real \<Rightarrow> real" where
  "priceDifference dexPrice otherPrice = \<bar>(dexPrice - otherPrice) / min dexPrice otherPrice * 100\<bar>"

text \<open>
  The body of the loop over \<^verbatim>\<open>arbitrageConfig.dexes\<close>, from the price difference on:
  the opportunity for the observed venue against one other venue, or \<open>None\<close> where the
  loop continues.
\<close>

definition evaluatePair ::
  "ArbitrageConfig \<Rightarrow> string \<Rightarrow> MempoolPacket \<Rightarrow> string \<Rightarrow> DexInfo \<Rightarrow> string \<Rightarrow> real
     \<Rightarrow> MEVOpportunity option" where
  "evaluatePair arbitrageConfig strategyName packet newId dexInfo otherDex otherPrice =
     (let priceDifferencePercent' = priceDifference (info_price dexInfo) otherPrice in
      if priceDifferencePercent' < minPriceDifferencePercent arbitrageConfig then None
      else
        (let buyDex' = (if info_price dexInfo < otherPrice then info_dex dexInfo else otherDex);
             sellDex' = (if info_price dexInfo < otherPrice then otherDex else info_dex dexInfo);
             buyPrice = (if info_price dexInfo < otherPrice then info_price dexInfo else otherPrice);
             sellPrice = (if info_price dexInfo < otherPrice then otherPrice else info_price dexInfo);
             optimalTradeSize = calculateOptimalTradeSize buyPrice sellPrice (maxSlippage arbitrageConfig);
             buyAmount' = optimalTradeSize;
             sellAmount' = optimalTradeSize * (sellPrice / buyPrice)
                             * (1 - maxSlippage arbitrageConfig / 100);
             estimatedGas' = estimateGasCost buyDex' sellDex';
             estimatedProfit' = sellAmount' - buyAmount' - estimatedGas' - gasBuffer arbitrageConfig
         in
         if estimatedProfit' < minProfitEstimate arbitrageConfig then None
         else
           (let confidence' =
                  arbitrage_calculateConfidence priceDifferencePercent' estimatedProfit'
                    (minProfitEstimate arbitrageConfig)
            in
            if confidence' < minConfidence arbitrageConfig then None
            else
              Some \<lparr> opp_id = newId,
                     strategy = strategyName,
                     opp_timestamp = packet_timestamp packet,
                     profitEstimate = estimatedProfit',
                     confidence = confidence',
                     opp_details = ArbitrageDetails
                       \<lparr> buyDex = buyDex', sellDex = sellDex',
                         arb_tokenPair = info_tokenPair dexInfo,
                         priceDifferencePercent = priceDifferencePercent',
                         buyAmount = buyAmount', sellAmount = sellAmount',
                         estimatedProfit = estimatedProfit', estimatedGas = estimatedGas' \<rparr>,
                     rawData = (packet_id packet, packet_timestamp packet) \<rparr>)))"

text \<open>
  The loop over \<^verbatim>\<open>arbitrageConfig.dexes\<close> for the transaction at position \<open>i\<close>;
  \<open>j\<close> counts the venues. The cached price of the other venue is read (an expired entry
  is dropped), its age is tested once more, and the pair is evaluated.
\<close>

fun compareDexes ::
  "Env \<Rightarrow> MempoolPacket \<Rightarrow> nat \<Rightarrow> DexInfo \<Rightarrow> string list \<Rightarrow> nat \<Rightarrow> ArbitrageStrategy
     \<Rightarrow> MEVOpportunity list \<times> ArbitrageStrategy" where
  "compareDexes env packet i dexInfo [] j this = ([], this)"
| "compareDexes env packet i dexInfo (otherDex # rest) j this =
     (if otherDex = info_dex dexInfo then compareDexes env packet i dexInfo rest (Suc j) this
      else
        (let (otherPrice, cache') =
               getPriceFromCache (now env) otherDex (info_tokenPair dexInfo) (priceCache this);
             this1 = this\<lparr> priceCache := cache' \<rparr>
         in
         case otherPrice of
           None \<Rightarrow> compareDexes env packet i dexInfo rest (Suc j) this1
         | Some p \<Rightarrow>
             if p = 0 then compareDexes env packet i dexInfo rest (Suc j) this1
             else if (case map_of cache' otherDex of
                        None \<Rightarrow> False
                      | Some pairs \<Rightarrow>
                          (case map_of pairs (info_tokenPair dexInfo) of
                             None \<Rightarrow> False
                           | Some e \<Rightarrow> now env - timestamp e > 60000))
             then compareDexes env packet i dexInfo rest (Suc j) this1
             else
               (case evaluatePair (config this1) (name this1) packet (arbitrageUuid env i j)
                       dexInfo otherDex p of
                  None \<Rightarrow> compareDexes env packet i dexInfo rest (Suc j) this1
                | Some opportunity \<Rightarrow>
                    (let (more, this2) =
                           compareDexes env packet i dexInfo rest (Suc j)
                             (this1\<lparr> opportunities := opportunities this1 @ [opportunity] \<rparr>)
                     in (opportunity # more, this2)))))"

text \<open>
  The loop over the transactions, inside the \<^verbatim>\<open>try\<close> block of \<^verbatim>\<open>analyze\<close>: an
  exception ends the loop, and what was found before it is returned.
\<close>

fun processTransactions ::
  "Env \<Rightarrow> MempoolPacket \<Rightarrow> jsval list \<Rightarrow> nat \<Rightarrow> ArbitrageStrategy
     \<Rightarrow> MEVOpportunity list \<times> ArbitrageStrategy" where
  "processTransactions env packet [] i this = ([], this)"
| "processTransactions env packet (tx # txs) i this =
     (case isDexTransaction tx of
        Inl e \<Rightarrow> ([], this)
      | Inr False \<Rightarrow> processTransactions env packet txs (Suc i) this
      | Inr True \<Rightarrow>
          (case extractDexInfo (rndPrice env i) tx of
             Inl e \<Rightarrow> ([], this)
           | Inr None \<Rightarrow> processTransactions env packet txs (Suc i) this
           | Inr (Some dexInfo) \<Rightarrow>
               (let this1 = this\<lparr> priceCache :=
                              updatePriceCache (now env) (now env) (info_dex dexInfo)
                                (info_tokenPair dexInfo) (info_price dexInfo) (priceCache this) \<rparr>;
                    (found, this2) =
                      compareDexes env packet i dexInfo (dexes (config this1)) 0 this1;
                    (more, this3) = processTransactions env packet txs (Suc i) this2
                in (found @ more, this3))))"

text \<open>
  \<^verbatim>\<open>ArbitrageStrategy.analyze\<close>. Before its \<^verbatim>\<open>try\<close> block the method logs the first
  transaction with its rendered hash: a first transaction that is \<^verbatim>\<open>null\<close> or whose hash
  does not render makes the method throw.
\<close>

definition ArbitrageStrategy_analyze ::
  "Env \<Rightarrow> MempoolPacket \<Rightarrow> ArbitrageStrategy \<Rightarrow> (error + MEVOpportunity list) \<times> ArbitrageStrategy" where
  "ArbitrageStrategy_analyze env packet this =
     (if \<not> enabled (config this) then (Inr [], this)
      else
        (let transactions' = extractTransactions packet in
         case (case transactions' of
                 [] \<Rightarrow> None
               | tx # txs \<Rightarrow> if isNullish tx then Some TypeError else hashError tx) of
           Some e \<Rightarrow> (Inl e, this)
         | None \<Rightarrow>
             (let (found, this') = processTransactions env packet transactions' 0 this
              in (Inr found, this'))))"


subsection \<open>The strategy manager\<close>

text \<open>
  A registered strategy is an arbitrage strategy, a sandwich strategy, or any other
  subclass of \<^verbatim>\<open>BaseStrategy\<close>: its fields of the base class, fields of its own
  (\<open>'s\<close>), and its \<^verbatim>\<open>analyze\<close>, which may change both and may throw.
\<close>

record 's CustomStrategy =
  base :: "StrategyConfig BaseStrategy"
  own :: 's
  analyzeImpl ::
    "MempoolPacket \<Rightarrow> StrategyConfig BaseStrategy \<times> 's
       \<Rightarrow> (error + MEVOpportunity list) \<times> StrategyConfig BaseStrategy \<times> 's"

datatype 's registered =
    Arbitrage ArbitrageStrategy
  | Sandwich SandwichStrategy
  | Custom "'s CustomStrategy"

fun getName :: "'s registered \<Rightarrow> string" where
  "getName (Arbitrage a) = name a"
| "getName (Sandwich w) = name w"
| "getName (Custom c) = name (base c)"

fun isEnabled :: "'s registered \<Rightarrow> bool" where
  "isEnabled (Arbitrage a) = enabled (config a)"
| "isEnabled (Sandwich w) = enabled (config w)"
| "isEnabled (Custom c) = enabled (config (base c))"



text \<open>The virtual call \<^verbatim>\<open>strategy.analyze(packet)\<close>.\<close>

fun analyze :: "Env \<Rightarrow> MempoolPacket \<Rightarrow> 's registered \<Rightarrow> (error + MEVOpportunity list) \<times> 's registered" where
  "analyze env packet (Arbitrage a) =
     (let (r, a') = ArbitrageStrategy_analyze env packet a in (r, Arbitrage a'))"
| "analyze env packet (Sandwich w) =
     (let (found, w') = SandwichStrategy_analyze env packet w in (Inr found, Sandwich w'))"
| "analyze env packet (Custom c) =
     (let (r, b', f') = analyzeImpl c packet (base c, own c)
      in (r, Custom (c\<lparr> base := b', own := f' \<rparr>)))"

text \<open>
  The manager: the registry (a \<^verbatim>\<open>Map\<close>, in insertion order), the aggregate store, and
  the payloads of the \<^verbatim>\<open>opportunitiesUpdated\<close> events it has emitted, oldest first.
  The listeners of the event are not part of the embedding: emitting is recording the
  payload.
\<close>

record 's StrategyManager =
  strategies :: "(string \<times> 's registered) list"
  store :: "MEVOpportunity list"
  lastAnalysisTime :: int
  emitted :: "MEVOpportunity list list"

definition registerStrategy :: "'s registered \<Rightarrow> 's StrategyManager \<Rightarrow> 's StrategyManager" where
  "registerStrategy st this = this\<lparr> strategies := assign (strategies this) (getName st) st \<rparr>"

definition unregisterStrategy :: "string \<Rightarrow> 's StrategyManager \<Rightarrow> 's StrategyManager" where
  "unregisterStrategy strategyName this =
     this\<lparr> strategies := removeKeys [strategyName] (strategies this) \<rparr>"

definition newStrategyManager :: "'s StrategyManager" where
  "newStrategyManager =
     registerStrategy (Sandwich (newSandwichStrategy defaultSandwichConfig))
       (registerStrategy (Arbitrage (newArbitrageStrategy defaultArbitrageConfig))
          \<lparr> strategies = [], store = [], lastAnalysisTime = 0, emitted = [] \<rparr>)"

text \<open>
  \<^verbatim>\<open>getOpportunities(limit, strategyFilter)\<close>. The filter counts when it is truthy (a
  name that is not empty). The sort is stable, by descending profit estimate, and in
  place: without a filter it reorders the store itself.
\<close>

definition getOpportunities ::
  "int \<Rightarrow> string option \<Rightarrow> 's StrategyManager \<Rightarrow> MEVOpportunity list \<times> 's StrategyManager" where
  "getOpportunities limit strategyFilter this =
     (let given = (case strategyFilter of None \<Rightarrow> False | Some f \<Rightarrow> f \<noteq> []);
          filteredOpportunities =
            sort_key (\<lambda>opp. - profitEstimate opp)
              (if given then filter (\<lambda>opp. Some (strategy opp) = strategyFilter) (store this)
               else store this);
          this' = (if given then this else this\<lparr> store := filteredOpportunities \<rparr>)
      in
      if limit > 0 \<and> int (length filteredOpportunities) > limit
      then (take (nat limit) filteredOpportunities, this')
      else (filteredOpportunities, this'))"

definition emitUpdated :: "'s StrategyManager \<Rightarrow> 's StrategyManager" where
  "emitUpdated this =
     (let (top, this') = getOpportunities 20 None this
      in this'\<lparr> emitted := emitted this' @ [top] \<rparr>)"



text \<open>
  The loop of \<^verbatim>\<open>analyzePacket\<close> over the registered strategies: \<open>found\<close> is
  \<^verbatim>\<open>newOpportunities\<close>, \<open>kept\<close> is \<^verbatim>\<open>this.opportunities\<close>. An exception of a
  strategy is caught and logged, and the loop goes on.
\<close>

fun runStrategies ::
  "Env \<Rightarrow> MempoolPacket \<Rightarrow> (string \<times> 's registered) list
     \<Rightarrow> MEVOpportunity list \<Rightarrow> MEVOpportunity list
     \<Rightarrow> (string \<times> 's registered) list \<times> MEVOpportunity list \<times> MEVOpportunity list" where
  "runStrategies env packet [] found kept = ([], found, kept)"
| "runStrategies env packet ((k, st) # rest) found kept =
     (case analyze env packet st of
        (Inl e, st') \<Rightarrow>
          (let (rest', found', kept') = runStrategies env packet rest found kept
           in ((k, st') # rest', found', kept'))
      | (Inr strategyOpportunities, st') \<Rightarrow>
          (let (rest', found', kept') =
                 (if length strategyOpportunities > 0
                  then runStrategies env packet rest
                         (found @ strategyOpportunities) (kept @ strategyOpportunities)
                  else runStrategies env packet rest found kept)
           in ((k, st') # rest', found', kept')))"

text \<open>
  \<^verbatim>\<open>StrategyManager.analyzePacket\<close>. The packet is an object, as its type says; the
  guard is on its \<^verbatim>\<open>data\<close>, which any falsy value fails. No exception leaves the
  method: every call that can throw stands in the \<^verbatim>\<open>try\<close> block of the loop.
\<close>

definition analyzePacket ::
  "Env \<Rightarrow> MempoolPacket \<Rightarrow> 's StrategyManager \<Rightarrow> MEVOpportunity list \<times> 's StrategyManager" where
  "analyzePacket env packet this =
     (if \<not> truthy (data packet) then ([], this)
      else
        (let (strategies', newOpportunities, kept) =
               runStrategies env packet (strategies this) [] (store this);
             this1 = this\<lparr> strategies := strategies', store := kept,
                           lastAnalysisTime := now env \<rparr>
         in
         if length newOpportunities > 0 then (newOpportunities, emitUpdated this1)
         else (newOpportunities, this1)))"








subsection \<open>Concrete inputs\<close>

text \<open>
  An outbound message that holds the swap code \<^verbatim>\<open>01e18801\<close> followed by an amount of
  eight bytes, in nano units: 1000 units in \<open>largeSwapMessage\<close>, 20 units in
  \<open>smallSwapMessage\<close>.
\<close>

definition largeSwapMessage :: "nat list" where
  "largeSwapMessage = [1, 225, 136, 1, 0, 0, 0, 232, 212, 165, 16, 0]"

definition smallSwapMessage :: "nat list" where
  "smallSwapMessage = [1, 225, 136, 1, 0, 0, 0, 4, 168, 23, 200, 0]"

definition largeSwapData :: jsval where
  "largeSwapData = JObj [(''outMsgs'', JArr [JBuf largeSwapMessage])]"

definition smallSwapData :: jsval where
  "smallSwapData = JObj [(''outMsgs'', JArr [JBuf smallSwapMessage])]"

text \<open>Packets as the subscription client builds them: an identifier, a time, the payload.\<close>

definition largeSwapPacket :: MempoolPacket where
  "largeSwapPacket =
     \<lparr> packet_id = ''packet-1'', packet_timestamp = 1000, data = largeSwapData,
       transactions = None \<rparr>"

definition smallSwapPacket :: MempoolPacket where
  "smallSwapPacket =
     \<lparr> packet_id = ''packet-2'', packet_timestamp = 2000, data = smallSwapData,
       transactions = None \<rparr>"

definition nullDataPacket :: MempoolPacket where
  "nullDataPacket =
     \<lparr> packet_id = ''packet-3'', packet_timestamp = 3000, data = JNull, transactions = None \<rparr>"

text \<open>All draws one half, the clock at 1000.\<close>

definition constHalf :: "nat \<Rightarrow> real" where
  "constHalf i = 1 / 2"

definition constUuid :: "nat \<Rightarrow> nat \<Rightarrow> string" where
  "constUuid i j = ''uuid-a''"

definition env0 :: Env where
  "env0 =
     \<lparr> now = 1000, rndSwapSize = 1 / 2, rndBackRun = 1 / 2, rndCapture = 1 / 2,
       sandwichUuid = ''uuid-s'', rndPrice = constHalf, arbitrageUuid = constUuid \<rparr>"

text \<open>The example of the specification: venue A at 0.50 observed, venue B at 0.51 cached.\<close>

definition dexAInfo :: DexInfo where
  "dexAInfo = \<lparr> info_dex = ''DexA'', info_tokenPair = ''TON/USDT'', info_price = 0.50 \<rparr>"


text \<open>A store of three opportunities, for the queries.\<close>

definition sampleOpportunity :: "string \<Rightarrow> string \<Rightarrow> real \<Rightarrow> MEVOpportunity" where
  "sampleOpportunity i s p =
     \<lparr> opp_id = i, strategy = s, opp_timestamp = 0, profitEstimate = p, confidence = 0.9,
       opp_details = OtherDetails, rawData = (''packet-0'', 0) \<rparr>"

definition sampleManager :: "unit StrategyManager" where
  "sampleManager =
     newStrategyManager
       \<lparr> store := [sampleOpportunity ''o1'' ''sandwich'' 1,
                    sampleOpportunity ''o2'' ''arbitrage'' 5,
                    sampleOpportunity ''o3'' ''sandwich'' 3] \<rparr>"

text \<open>
  The opportunity the sandwich strategy computes for \<open>largeSwapPacket\<close> with the draws
  of \<open>env0\<close> and its default thresholds.
\<close>

definition largeSwapOpportunity :: MEVOpportunity where
  "largeSwapOpportunity =
     \<lparr> opp_id = ''uuid-s'', strategy = ''sandwich'', opp_timestamp = 1000,
       profitEstimate = 34.94, confidence = 0.98,
       opp_details = SandwichDetails
         \<lparr> sw_tokenPair = ''TON/USDT'', targetSwapSize = 1000, estimatedPriceImpact = 5,
           frontRunAmount = 200, backRunAmount = 275, estimatedFrontRunGas = 0.03,
           estimatedBackRunGas = 0.03, totalGasCost = 0.06 \<rparr>,
       rawData = (''packet-1'', 1000) \<rparr>"

text \<open>
  The same payload with one transaction attached whose hash is a number: rendering it
  throws in \<^verbatim>\<open>ArbitrageStrategy.analyze\<close>.
\<close>

definition poisonedPacket :: MempoolPacket where
  "poisonedPacket = largeSwapPacket\<lparr> transactions := Some [JObj [(''hash'', JNum 7)]] \<rparr>"


text \<open>The default manager after its sandwich strategy was configured as disabled.\<close>

definition disabledSandwichManager :: "unit StrategyManager" where
  "disabledSandwichManager =
     registerStrategy
       (Sandwich (newSandwichStrategy (defaultSandwichConfig\<lparr> enabled := False \<rparr>)))
       newStrategyManager"








section \<open>Properties\<close>

subsection \<open>Evaluation of the concrete inputs\<close>

lemma toHex_largeSwapMessage: "toHex largeSwapMessage = ''01e18801000000e8d4a51000''"
  by (simp add: largeSwapMessage_def toHex_def hexDigit_def)

lemma toHex_smallSwapMessage: "toHex smallSwapMessage = ''01e1880100000004a817c800''"
  by (simp add: smallSwapMessage_def toHex_def hexDigit_def)

lemma parseInt16_large: "parseInt16 ''000000e8d4a51000'' = Some 1000000000000"
  by (simp add: parseInt16_def isWhiteSpace_def isHexDigit_def hexDigitValue_def hexValue_def)

lemma parseInt16_small: "parseInt16 ''00000004a817c800'' = Some 20000000000"
  by (simp add: parseInt16_def isWhiteSpace_def isHexDigit_def hexDigitValue_def hexValue_def)

lemma swapFromOutMsgs_large:
  "swapFromOutMsgs largeSwapData = Some \<lparr> tokenPair = Some ''TON/USDT'', swapSize = 1000 \<rparr>"
  by (simp add: swapFromOutMsgs_def largeSwapData_def toHex_largeSwapMessage substring_def
      parseInt16_large)

lemma swapFromOutMsgs_small:
  "swapFromOutMsgs smallSwapData = Some \<lparr> tokenPair = Some ''TON/USDT'', swapSize = 20 \<rparr>"
  by (simp add: swapFromOutMsgs_def smallSwapData_def toHex_smallSwapMessage substring_def
      parseInt16_small)

lemma extractSwapDetails_large:
  "extractSwapDetails c r largeSwapData = Some \<lparr> tokenPair = Some ''TON/USDT'', swapSize = 1000 \<rparr>"
  by (simp add: extractSwapDetails_def swapFromOutMsgs_large)

lemma extractSwapDetails_small:
  "extractSwapDetails c r smallSwapData = Some \<lparr> tokenPair = Some ''TON/USDT'', swapSize = 20 \<rparr>"
  by (simp add: extractSwapDetails_def swapFromOutMsgs_small)

subsection \<open>Arbitrage: trade size\<close>

text \<open>
  The trade size grows with the sell price and never exceeds six times the base size of
  ten: the factor that is capped at five is added to one.
\<close>

lemma calculateOptimalTradeSize_mono:
  "0 < buy \<Longrightarrow> sell \<le> sell' \<Longrightarrow>
   calculateOptimalTradeSize buy sell s \<le> calculateOptimalTradeSize buy sell' s"
  by (simp add: calculateOptimalTradeSize_def Let_def min_def divide_right_mono field_simps)

lemma calculateOptimalTradeSize_le: "calculateOptimalTradeSize buy sell s \<le> 60"
  by (simp add: calculateOptimalTradeSize_def Let_def min_def)

text \<open>
  C8. The claim bounds the trade size by five times the base size of ten. At a buy price
  of 1 and a sell price of 2 the code returns 60, six times the base size.
\<close>

theorem C8_trade_size_reaches_six_times_base:
  "calculateOptimalTradeSize 1 2 (1 / 2) = 60 \<and> 5 * 10 < calculateOptimalTradeSize 1 2 (1 / 2)"
  by (simp add: calculateOptimalTradeSize_def)

subsection \<open>Sandwich: price impact\<close>

text \<open>
  C7, as the code has it. The estimated price impact is 0.1 plus 0.05 for each ten units
  of size above the minimum (0.005 for each unit), capped at 5; and a swap whose impact
  is below 0.5 yields no opportunity and leaves the strategy as it was.
\<close>

theorem C7_price_impact_per_ten_units:
  "calculatePriceImpact (config this) s = min (0.1 + 0.005 * (s - minTargetSwapSize (config this))) 5
   \<and> (extractSwapDetails (config this) (rndSwapSize env) (data packet) = Some d
        \<and> calculatePriceImpact (config this) (swapSize d) < 0.5
      \<longrightarrow> SandwichStrategy_analyze env packet this = ([], this))"
  by (simp add: calculatePriceImpact_def SandwichStrategy_analyze_def Let_def min_def)

theorem C7_price_impact_witness:
  "extractSwapDetails defaultSandwichConfig (rndSwapSize env0) (data smallSwapPacket)
     = Some \<lparr> tokenPair = Some ''TON/USDT'', swapSize = 20 \<rparr>
   \<and> calculatePriceImpact defaultSandwichConfig 20 = 0.15
   \<and> SandwichStrategy_analyze env0 smallSwapPacket (newSandwichStrategy defaultSandwichConfig)
       = ([], newSandwichStrategy defaultSandwichConfig)"
proof -
  have e: "extractSwapDetails (config (newSandwichStrategy defaultSandwichConfig))
             (rndSwapSize env0) (data smallSwapPacket)
           = Some \<lparr> tokenPair = Some ''TON/USDT'', swapSize = 20 \<rparr>"
    by (simp add: smallSwapPacket_def extractSwapDetails_small)
  have i: "calculatePriceImpact (config (newSandwichStrategy defaultSandwichConfig)) 20 = 0.15"
    by (simp add: calculatePriceImpact_def newSandwichStrategy_def defaultSandwichConfig_def)
  from C7_price_impact_per_ten_units
         [where this = "newSandwichStrategy defaultSandwichConfig" and s = 20 and env = env0
            and packet = smallSwapPacket
            and d = "\<lparr> tokenPair = Some ''TON/USDT'', swapSize = 20 \<rparr>"] e i
  have "SandwichStrategy_analyze env0 smallSwapPacket (newSandwichStrategy defaultSandwichConfig)
          = ([], newSandwichStrategy defaultSandwichConfig)"
    by simp
  with e i show ?thesis by (simp add: newSandwichStrategy_def)
qed

text \<open>
  The claim's formula, 0.05 for each unit, fails at a swap of 20 units with the default
  minimum of 10: the code gives 0.15, the formula 0.6.
\<close>

theorem C7_per_unit_counterexample:
  "calculatePriceImpact defaultSandwichConfig 20
     \<noteq> min (0.1 + 0.05 * (20 - minTargetSwapSize defaultSandwichConfig)) 5"
  by (simp add: calculatePriceImpact_def Let_def defaultSandwichConfig_def)

subsection \<open>Arbitrage: price difference and venues\<close>





text \<open>With the default minimal confidence of 0.7 the example yields no opportunity.\<close>

lemma evaluatePair_example_default_confidence:
  "evaluatePair (defaultArbitrageConfig\<lparr> minPriceDifferencePercent := 1 \<rparr>) ''arbitrage''
     largeSwapPacket ''uuid-a'' dexAInfo ''DexB'' 0.51 = None"
  by (simp add: evaluatePair_def defaultArbitrageConfig_def dexAInfo_def
      priceDifference_def calculateOptimalTradeSize_def estimateGasCost_def
      arbitrage_calculateConfidence_def Let_def)




subsection \<open>Manager: queries\<close>

lemma sorted_by_profit:
  "sorted_wrt (\<lambda>a b. profitEstimate b \<le> profitEstimate a)
     (sort_key (\<lambda>opp. - profitEstimate opp) xs)"
proof -
  have "sorted (map (\<lambda>opp. - profitEstimate opp) (sort_key (\<lambda>opp. - profitEstimate opp) xs))"
    by (rule sorted_sort_key)
  then show ?thesis by (simp add: sorted_map)
qed

text \<open>
  C4. For a limit \<open>n > 0\<close>, \<^verbatim>\<open>getOpportunities\<close> returns at most \<open>n\<close> opportunities of
  the store, in descending order of the profit estimate, and all of the strategy that was
  asked for when a filter (a name that is not empty) is given.
\<close>

theorem C4_getOpportunities_limit_order_filter:
  "0 < n \<Longrightarrow>
   int (length (fst (getOpportunities n flt this))) \<le> n
   \<and> sorted_wrt (\<lambda>a b. profitEstimate b \<le> profitEstimate a) (fst (getOpportunities n flt this))
   \<and> (\<forall>f. flt = Some f \<and> f \<noteq> []
        \<longrightarrow> (\<forall>opp \<in> set (fst (getOpportunities n flt this)). strategy opp = f))
   \<and> set (fst (getOpportunities n flt this)) \<subseteq> set (store this)"
  apply (simp add: getOpportunities_def Let_def sorted_by_profit sorted_wrt_take)
  apply (auto dest!: in_set_takeD)
  done

lemma getOpportunities_sample:
  "fst (getOpportunities 1 (Some ''sandwich'') sampleManager) = [sampleOpportunity ''o3'' ''sandwich'' 3]"
  by (simp add: getOpportunities_def sampleManager_def sampleOpportunity_def Let_def)

theorem C4_getOpportunities_witness:
  "(0::int) < 1
   \<and> fst (getOpportunities 1 (Some ''sandwich'') sampleManager) = [sampleOpportunity ''o3'' ''sandwich'' 3]
   \<and> int (length (fst (getOpportunities 1 (Some ''sandwich'') sampleManager))) \<le> 1
   \<and> strategy (sampleOpportunity ''o3'' ''sandwich'' 3) = ''sandwich''"
  using C4_getOpportunities_limit_order_filter [of 1 "Some ''sandwich''" sampleManager]
    getOpportunities_sample
  by (simp add: sampleOpportunity_def)

subsection \<open>Manager: packets without data\<close>

text \<open>
  C10. A packet whose \<^verbatim>\<open>data\<close> is \<^verbatim>\<open>null\<close> or \<^verbatim>\<open>undefined\<close> gives the empty
  list and leaves the manager as it was: the registered strategies with their histories
  and caches (no \<^verbatim>\<open>analyze\<close> ran, whatever it would have done), the store, and the
  list of emitted events.
\<close>

theorem C10_absent_data_returns_nothing:
  "data packet = JNull \<or> data packet = JUndefined \<Longrightarrow>
   analyzePacket env packet this = ([], this)"
  by (auto simp add: analyzePacket_def)

theorem C10_absent_data_witness:
  "data nullDataPacket = JNull
   \<and> analyzePacket env0 nullDataPacket sampleManager = ([], sampleManager)"
  using C10_absent_data_returns_nothing [of nullDataPacket env0 sampleManager]
  by (simp add: nullDataPacket_def)


subsection \<open>Manager: what one packet adds\<close>

lemma runStrategies_concat:
  "runStrategies env packet sts found kept =
     (map (\<lambda>(k, st). (k, snd (analyze env packet st))) sts,
      found @ concat (map (\<lambda>(k, st). case fst (analyze env packet st) of
                                         Inl e \<Rightarrow> [] | Inr os \<Rightarrow> os) sts),
      kept @ concat (map (\<lambda>(k, st). case fst (analyze env packet st) of
                                        Inl e \<Rightarrow> [] | Inr os \<Rightarrow> os) sts))"
proof (induction sts arbitrary: found kept)
  case Nil
  then show ?case by simp
next
  case (Cons a sts)
  obtain k st where a: "a = (k, st)" by (cases a)
  obtain r st' where r: "analyze env packet st = (r, st')" by (cases "analyze env packet st")
  show ?case
    by (cases r) (simp_all add: a r Cons.IH split: prod.splits)
qed

lemma analyzePacket_result:
  "truthy (data packet) \<Longrightarrow>
   fst (analyzePacket env packet this) =
     concat (map (\<lambda>(k, st). case fst (analyze env packet st) of
                               Inl e \<Rightarrow> [] | Inr found \<Rightarrow> found) (strategies this))"
  by (simp add: analyzePacket_def runStrategies_concat Let_def split: prod.splits)

lemma store_emitUpdated:
  "store (emitUpdated this) = sort_key (\<lambda>opp. - profitEstimate opp) (store this)"
  by (simp add: emitUpdated_def getOpportunities_def Let_def split: prod.splits)


lemma emitted_emitUpdated:
  "emitted (emitUpdated this) = emitted this @ [fst (getOpportunities 20 None this)]"
  by (simp add: emitUpdated_def getOpportunities_def Let_def split: prod.splits)

lemma analyzePacket_store:
  "truthy (data packet) \<Longrightarrow>
   mset (store (snd (analyzePacket env packet this)))
     = mset (store this) + mset (fst (analyzePacket env packet this))"
  by (simp add: analyzePacket_def runStrategies_concat Let_def store_emitUpdated split: prod.splits)




subsection \<open>The two strategies on the concrete packets\<close>

lemma data_largeSwapPacket: "data largeSwapPacket = largeSwapData"
  by (simp add: largeSwapPacket_def)

lemma data_poisonedPacket: "data poisonedPacket = largeSwapData"
  by (simp add: poisonedPacket_def largeSwapPacket_def)

lemma truthy_largeSwapData: "truthy largeSwapData"
  by (simp add: largeSwapData_def)

lemma hashError_largeSwapData: "hashError largeSwapData = None"
  by (simp add: hashError_def largeSwapData_def)

lemma SandwichStrategy_analyze_large:
  "minTargetSwapSize c = 10 \<Longrightarrow> maxFrontRunGas c = 0.03 \<Longrightarrow> maxBackRunGas c = 0.03 \<Longrightarrow>
   minProfitEstimate c = 0.05 \<Longrightarrow> minConfidence c = 0.8 \<Longrightarrow>
   ''TON/USDT'' \<in> set (targetPairs c) \<Longrightarrow>
   data packet = largeSwapData \<Longrightarrow> packet_id packet = ''packet-1'' \<Longrightarrow>
   packet_timestamp packet = 1000 \<Longrightarrow>
   SandwichStrategy_analyze env0 packet \<lparr> name = ''sandwich'', config = c, opportunities = h \<rparr>
     = ([largeSwapOpportunity],
        \<lparr> name = ''sandwich'', config = c, opportunities = h @ [largeSwapOpportunity] \<rparr>)"
  by (simp add: SandwichStrategy_analyze_def extractSwapDetails_large hashError_largeSwapData
      calculatePriceImpact_def calculateOptimalFrontRunAmount_def
      calculateOptimalBackRunAmount_def calculateProfitEstimate_def
      sandwich_calculateConfidence_def env0_def largeSwapOpportunity_def Let_def)
     (simp add: largeSwapData_def)

lemma SandwichStrategy_analyze_large_new:
  "SandwichStrategy_analyze env0 largeSwapPacket
     (newSandwichStrategy (defaultSandwichConfig\<lparr> enabled := b \<rparr>))
   = ([largeSwapOpportunity],
      (newSandwichStrategy (defaultSandwichConfig\<lparr> enabled := b \<rparr>))
        \<lparr> opportunities := [largeSwapOpportunity] \<rparr>)"
  using SandwichStrategy_analyze_large
          [of "defaultSandwichConfig\<lparr> enabled := b \<rparr>" largeSwapPacket "[]"]
  by (simp add: newSandwichStrategy_def defaultSandwichConfig_def largeSwapPacket_def)

lemma SandwichStrategy_analyze_poisoned:
  "SandwichStrategy_analyze env0 poisonedPacket (newSandwichStrategy defaultSandwichConfig)
   = ([largeSwapOpportunity],
      (newSandwichStrategy defaultSandwichConfig)\<lparr> opportunities := [largeSwapOpportunity] \<rparr>)"
  using SandwichStrategy_analyze_large [of defaultSandwichConfig poisonedPacket "[]"]
  by (simp add: newSandwichStrategy_def defaultSandwichConfig_def poisonedPacket_def
      largeSwapPacket_def)

lemma extractTransactions_large: "extractTransactions largeSwapPacket = []"
  by (simp add: extractTransactions_def largeSwapPacket_def largeSwapData_def)

lemma ArbitrageStrategy_analyze_no_transactions:
  "extractTransactions packet = [] \<Longrightarrow> ArbitrageStrategy_analyze env packet a = (Inr [], a)"
  by (simp add: ArbitrageStrategy_analyze_def)

text \<open>The arbitrage strategy honours its \<^verbatim>\<open>enabled\<close> flag.\<close>

lemma ArbitrageStrategy_analyze_disabled:
  "\<not> enabled (config a) \<Longrightarrow> ArbitrageStrategy_analyze env packet a = (Inr [], a)"
  by (simp add: ArbitrageStrategy_analyze_def)

lemma ArbitrageStrategy_analyze_poisoned:
  "enabled (config a) \<Longrightarrow> ArbitrageStrategy_analyze env poisonedPacket a = (Inl RangeError, a)"
  by (simp add: ArbitrageStrategy_analyze_def poisonedPacket_def extractTransactions_def
      isNullish_def hashError_def)

lemma ArbitrageStrategy_analyze_large:
  "ArbitrageStrategy_analyze env0 largeSwapPacket a = (Inr [], a)"
  by (simp add: ArbitrageStrategy_analyze_no_transactions extractTransactions_large)

lemma strategies_newStrategyManager:
  "strategies (newStrategyManager :: 's StrategyManager) =
     [(''arbitrage'', Arbitrage (newArbitrageStrategy defaultArbitrageConfig)),
      (''sandwich'', Sandwich (newSandwichStrategy defaultSandwichConfig))]"
  by (simp add: newStrategyManager_def registerStrategy_def newArbitrageStrategy_def
      newSandwichStrategy_def)


lemma strategies_disabledSandwichManager:
  "strategies disabledSandwichManager =
     [(''arbitrage'', Arbitrage (newArbitrageStrategy defaultArbitrageConfig)),
      (''sandwich'', Sandwich (newSandwichStrategy (defaultSandwichConfig\<lparr> enabled := False \<rparr>)))]"
  by (simp add: disabledSandwichManager_def strategies_newStrategyManager registerStrategy_def
      newSandwichStrategy_def)

lemma store_disabledSandwichManager: "store disabledSandwichManager = []"
  by (simp add: disabledSandwichManager_def newStrategyManager_def registerStrategy_def)

lemma analyzePacket_large_disabled:
  "fst (analyzePacket env0 largeSwapPacket disabledSandwichManager) = [largeSwapOpportunity]"
  by (simp add: analyzePacket_result data_largeSwapPacket truthy_largeSwapData
      strategies_disabledSandwichManager SandwichStrategy_analyze_large_new
      ArbitrageStrategy_analyze_large)


subsection \<open>Manager: one strategy fails\<close>

text \<open>
  C5. For a packet with data, the result of \<^verbatim>\<open>analyzePacket\<close> is, in registration
  order, what each registered strategy returned, and nothing for a strategy that threw:
  of two strategies of which one throws, the result holds exactly the opportunities the
  other one returned.
\<close>

theorem C5_failure_isolation:
  "truthy (data packet) \<Longrightarrow>
   fst (analyzePacket env packet this) =
     concat (map (\<lambda>(k, st). case fst (analyze env packet st) of
                               Inl e \<Rightarrow> [] | Inr found \<Rightarrow> found) (strategies this))
   \<and> (strategies this = [(k1, s1), (k2, s2)]
        \<and> fst (analyze env packet s1) = Inl e1 \<and> fst (analyze env packet s2) = Inr found2
      \<longrightarrow> fst (analyzePacket env packet this) = found2)
   \<and> (strategies this = [(k1, s1), (k2, s2)]
        \<and> fst (analyze env packet s1) = Inr found1 \<and> fst (analyze env packet s2) = Inl e2
      \<longrightarrow> fst (analyzePacket env packet this) = found1)"
  by (simp add: analyzePacket_result)

theorem C5_failure_isolation_witness:
  "truthy (data poisonedPacket)
   \<and> fst (analyze env0 poisonedPacket
            (Arbitrage (newArbitrageStrategy defaultArbitrageConfig) :: unit registered))
       = Inl RangeError
   \<and> fst (analyze env0 poisonedPacket
            (Sandwich (newSandwichStrategy defaultSandwichConfig) :: unit registered))
       = Inr [largeSwapOpportunity]
   \<and> fst (analyzePacket env0 poisonedPacket (newStrategyManager :: unit StrategyManager))
       = [largeSwapOpportunity]"
proof -
  have t: "truthy (data poisonedPacket)"
    by (simp add: data_poisonedPacket truthy_largeSwapData)
  have a: "fst (analyze env0 poisonedPacket
             (Arbitrage (newArbitrageStrategy defaultArbitrageConfig) :: unit registered))
           = Inl RangeError"
    by (simp add: ArbitrageStrategy_analyze_poisoned newArbitrageStrategy_def
        defaultArbitrageConfig_def)
  have w: "fst (analyze env0 poisonedPacket
             (Sandwich (newSandwichStrategy defaultSandwichConfig) :: unit registered))
           = Inr [largeSwapOpportunity]"
    by (simp add: SandwichStrategy_analyze_poisoned)
  from C5_failure_isolation
         [OF t, where env = env0 and this = "newStrategyManager :: unit StrategyManager"
            and ?k1.0 = "''arbitrage''" and ?k2.0 = "''sandwich''"
            and ?s1.0 = "Arbitrage (newArbitrageStrategy defaultArbitrageConfig)"
            and ?s2.0 = "Sandwich (newSandwichStrategy defaultSandwichConfig)"
            and ?e1.0 = RangeError and ?found2.0 = "[largeSwapOpportunity]"] a w
  have "fst (analyzePacket env0 poisonedPacket (newStrategyManager :: unit StrategyManager))
          = [largeSwapOpportunity]"
    by (simp add: strategies_newStrategyManager)
  with t a w show ?thesis by simp
qed

subsection \<open>Manager: a disabled strategy\<close>

text \<open>
  C6. The claim lets only enabled strategies contribute. The manager runs every
  registered strategy; the arbitrage strategy returns nothing when it is disabled
  (\<open>ArbitrageStrategy_analyze_disabled\<close>), the sandwich strategy never reads the flag.
  With the sandwich strategy disabled, the packet with the large swap still adds the
  sandwich opportunity to the result and to the store.
\<close>

theorem C6_disabled_sandwich_still_contributes:
  "map (isEnabled \<circ> snd) (strategies disabledSandwichManager) = [True, False]
   \<and> fst (analyzePacket env0 largeSwapPacket disabledSandwichManager) = [largeSwapOpportunity]
   \<and> store (snd (analyzePacket env0 largeSwapPacket disabledSandwichManager))
       = [largeSwapOpportunity]
   \<and> strategy largeSwapOpportunity = ''sandwich''"
proof -
  have "mset (store (snd (analyzePacket env0 largeSwapPacket disabledSandwichManager)))
          = {#largeSwapOpportunity#}"
    by (simp add: analyzePacket_store data_largeSwapPacket truthy_largeSwapData
        store_disabledSandwichManager analyzePacket_large_disabled)
  then have "store (snd (analyzePacket env0 largeSwapPacket disabledSandwichManager))
          = [largeSwapOpportunity]"
    by (simp add: mset_single_iff_right)
  then show ?thesis
    by (simp add: analyzePacket_large_disabled strategies_disabledSandwichManager
        newArbitrageStrategy_def newSandwichStrategy_def defaultArbitrageConfig_def
        largeSwapOpportunity_def)
qed

subsection \<open>Manager: packets without transactions\<close>






subsection \<open>Manager: the store and the histories\<close>



















subsection \<open>The price cache\<close>



















































end
